theory Spec2Isabelle
  imports Complex_Main
begin

section \<open>Repair priority (decision_engine/repair_priority.py)\<close>

text \<open>
  Diagnostic scores are Python floats. Every score the system computes is 100.0 minus a sum
  of small integers, and every test on a score is a comparison with an integer literal, so
  the scores are modelled as \<^typ>\<open>real\<close>: on finite floats the comparisons and these
  subtractions are exact. Repair-attempt counts are Python ints, modelled as \<^typ>\<open>int\<close>.
\<close>

text \<open>\<^verbatim>\<open>class FailurePriority(IntEnum)\<close>: the members, and \<^verbatim>\<open>int(member)\<close>.\<close>

datatype FailurePriority = CRITICAL | HIGH | MEDIUM | LOW | UNKNOWN

fun priority_int :: "FailurePriority \<Rightarrow> int" where
  "priority_int CRITICAL = 1"
| "priority_int HIGH = 2"
| "priority_int MEDIUM = 3"
| "priority_int LOW = 4"
| "priority_int UNKNOWN = 0"

text \<open>
  Python's \<^verbatim>\<open>min(a, b)\<close> on two IntEnum members compares their integer values and
  returns the first argument unless the second is strictly smaller.
\<close>

definition min_priority :: "FailurePriority \<Rightarrow> FailurePriority \<Rightarrow> FailurePriority" where
  "min_priority a b = (if priority_int b < priority_int a then b else a)"

definition PRIORITY_MAP :: "string \<rightharpoonup> FailurePriority" where
  "PRIORITY_MAP = map_of
     [(''Application Failure'', CRITICAL),
      (''OS-level Failure'', CRITICAL),
      (''Disk Corruption'', CRITICAL),
      (''Agent Failure'', HIGH),
      (''Resource Bottleneck'', MEDIUM),
      (''Network Degradation'', MEDIUM),
      (''Unknown State'', UNKNOWN)]"

text \<open>\<^verbatim>\<open>PRIORITY_MAP.get(classification, FailurePriority.UNKNOWN)\<close>\<close>

definition base_priority_of :: "string \<Rightarrow> FailurePriority" where
  "base_priority_of classification =
     (case PRIORITY_MAP classification of None \<Rightarrow> UNKNOWN | Some p \<Rightarrow> p)"

text \<open>The first adjustment of \<^verbatim>\<open>calculate_repair_priority\<close>, on the diagnostic score.\<close>

definition adjust_for_score :: "FailurePriority \<Rightarrow> real \<Rightarrow> FailurePriority" where
  "adjust_for_score base_priority diagnostic_score =
     (if diagnostic_score < 20 then CRITICAL
      else if diagnostic_score < 40 then min_priority base_priority HIGH
      else base_priority)"

text \<open>The second adjustment, on the repair attempts.\<close>

definition adjust_for_attempts :: "FailurePriority \<Rightarrow> int \<Rightarrow> FailurePriority" where
  "adjust_for_attempts base_priority repair_attempts =
     (if repair_attempts \<ge> 2 then CRITICAL else base_priority)"

definition calculate_repair_priority :: "string \<Rightarrow> real \<Rightarrow> int \<Rightarrow> int" where
  "calculate_repair_priority classification diagnostic_score repair_attempts =
     priority_int
       (adjust_for_attempts
          (adjust_for_score (base_priority_of classification) diagnostic_score)
          repair_attempts)"

text \<open>
  The instance configuration is a dictionary read with \<^verbatim>\<open>.get(key, default)\<close>; a field
  is \<open>None\<close> when the key is absent.
\<close>

record instance_config =
  skip_recovery :: "bool option"
  cooldown_minutes :: "int option"

definition get_or :: "'a option \<Rightarrow> 'a \<Rightarrow> 'a" where
  "get_or v d = (case v of None \<Rightarrow> d | Some x \<Rightarrow> x)"

definition should_skip_repair :: "string \<Rightarrow> real \<Rightarrow> instance_config \<Rightarrow> bool" where
  "should_skip_repair classification diagnostic_score config =
     (if get_or (skip_recovery config) False then True
      else if diagnostic_score < 10 then True
      else if classification \<in> set [''OS-level Failure'', ''Disk Corruption''] then True
      else False)"

definition repair_timeouts :: "string \<rightharpoonup> int" where
  "repair_timeouts = map_of
     [(''Application Failure'', 300),
      (''Resource Bottleneck'', 600),
      (''Agent Failure'', 900),
      (''Network Degradation'', 600),
      (''OS-level Failure'', 0),
      (''Disk Corruption'', 0),
      (''Unknown State'', 300)]"

definition get_repair_timeout :: "string \<Rightarrow> int" where
  "get_repair_timeout classification = get_or (repair_timeouts classification) 300"

section \<open>Decision model (decision_engine/decision_model.py)\<close>

definition should_replace_instance :: "real \<Rightarrow> int \<Rightarrow> bool" where
  "should_replace_instance diagnostic_score repair_attempts =
     (if diagnostic_score < 30 then True
      else if repair_attempts \<ge> 2 then True
      else False)"

text \<open>
  The reason of a decision is an f-string; it is kept as the template that was chosen
  together with the values formatted into it (the score is printed with one decimal).
\<close>

datatype reason_text =
  Reason_empty
| Reason_skipped
| Reason_replace real int
| Reason_repair string real

text \<open>The dictionary \<^verbatim>\<open>decide\<close> returns; \<^verbatim>\<open>action\<close> is \<open>None\<close>, \<open>'replace'\<close> or \<open>'repair'\<close>.\<close>

record decision =
  instance_id :: string
  action :: "string option"
  reason :: reason_text
  priority :: int
  timeout_seconds :: int
  skip :: bool

text \<open>The fields of an \<^verbatim>\<open>AutoHealDecision\<close> object, set by \<^verbatim>\<open>__init__\<close>.\<close>

record AutoHealDecision =
  self_instance_id :: string
  self_classification :: string
  self_diagnostic_score :: real
  self_repair_attempts :: int
  self_instance_config :: instance_config

definition initial_decision :: "AutoHealDecision \<Rightarrow> decision" where
  "initial_decision self =
     \<lparr>instance_id = self_instance_id self, action = None, reason = Reason_empty,
      priority = 0, timeout_seconds = 0, skip = False\<rparr>"

definition decide :: "AutoHealDecision \<Rightarrow> decision" where
  "decide self =
     (let decision = initial_decision self in
      if should_skip_repair (self_classification self) (self_diagnostic_score self)
           (self_instance_config self)
      then decision\<lparr>skip := True, reason := Reason_skipped\<rparr>
      else
        let priority = calculate_repair_priority (self_classification self)
                         (self_diagnostic_score self) (self_repair_attempts self);
            decision = decision\<lparr>priority := priority\<rparr>;
            should_replace = should_replace_instance (self_diagnostic_score self)
                               (self_repair_attempts self)
        in if should_replace
           then decision\<lparr>action := Some ''replace'',
                  reason := Reason_replace (self_diagnostic_score self) (self_repair_attempts self),
                  timeout_seconds := 1800\<rparr>
           else decision\<lparr>action := Some ''repair'',
                  reason := Reason_repair (self_classification self) (self_diagnostic_score self),
                  timeout_seconds := get_repair_timeout (self_classification self)\<rparr>)"

definition make_decision ::
  "string \<Rightarrow> string \<Rightarrow> real \<Rightarrow> int \<Rightarrow> instance_config \<Rightarrow> decision" where
  "make_decision iid classification diagnostic_score repair_attempts config =
     decide \<lparr>self_instance_id = iid, self_classification = classification,
             self_diagnostic_score = diagnostic_score, self_repair_attempts = repair_attempts,
             self_instance_config = config\<rparr>"

section \<open>Auto-heal handler (lambda/auto\_heal/handler.py)\<close>

text \<open>
  The triggering event is a dictionary; a field is \<open>None\<close> when its key is absent. The
  \<^verbatim>\<open>detail\<close> entry is itself a dictionary (given as JSON text or already parsed), of which
  only \<^verbatim>\<open>instance_id\<close> is read.
\<close>

record event_detail =
  detail_instance_id :: "string option"

record event =
  ev_instance_id :: "string option"
  ev_detail :: "event_detail option"
  ev_target_group_arn :: "string option"
  ev_diagnostic_score :: "real option"
  ev_classification :: "string option"
  ev_issue_type :: "string option"
  ev_action :: "string option"

definition extract_instance_id :: "event \<Rightarrow> string option" where
  "extract_instance_id ev =
     (case ev_instance_id ev of
        Some i \<Rightarrow> Some i
      | None \<Rightarrow>
          (case ev_detail ev of
             Some detail \<Rightarrow> detail_instance_id detail
           | None \<Rightarrow> None))"

text \<open>\<^verbatim>\<open>not instance_id\<close>: the id is \<open>None\<close> or the empty string.\<close>

definition no_instance_id :: "string option \<Rightarrow> bool" where
  "no_instance_id i = (case i of None \<Rightarrow> True | Some s \<Rightarrow> s = [])"

text \<open>
  What the handler reads from the audit store: the item \<^verbatim>\<open>_get_instance_config\<close>
  returns (the empty dictionary when the read fails), the answer of \<^verbatim>\<open>_is_in_cooldown\<close>
  (which compares the last action's timestamp with the clock) and the count
  \<^verbatim>\<open>_get_repair_attempts\<close> returns.
\<close>

record heal_store =
  stored_instance_config :: instance_config
  is_in_cooldown :: bool
  get_repair_attempts :: int

text \<open>
  How the handler ends: one of its three early returns, or after calling
  \<^verbatim>\<open>_replace_instance\<close> or \<^verbatim>\<open>_repair_instance\<close>, whose result always carries
  \<^verbatim>\<open>'action': 'replace'\<close> and \<^verbatim>\<open>'action': 'repair'\<close> respectively.
\<close>

datatype heal_outcome =
  Missing_instance_id
| Recovery_skipped
| In_cooldown
| Replace_issued string
| Repair_issued string

definition auto_heal_handler :: "event \<Rightarrow> heal_store \<Rightarrow> heal_outcome" where
  "auto_heal_handler ev store =
     (let iid = extract_instance_id ev;
          diagnostic_score = get_or (ev_diagnostic_score ev) 100;
          classification = get_or (ev_classification ev) ''Unknown State''
      in if no_instance_id iid then Missing_instance_id
         else
           let instance_config = stored_instance_config store
           in if get_or (skip_recovery instance_config) False then Recovery_skipped
              else if is_in_cooldown store then In_cooldown
              else
                let repair_attempts = get_repair_attempts store;
                    should_replace = should_replace_instance diagnostic_score repair_attempts
                in if should_replace then Replace_issued (get_or iid [])
                   else Repair_issued (get_or iid []))"

text \<open>The action the handler issued, if any.\<close>

fun issued_action :: "heal_outcome \<Rightarrow> string option" where
  "issued_action (Replace_issued i) = Some ''replace''"
| "issued_action (Repair_issued i) = Some ''repair''"
| "issued_action _ = None"

section \<open>The urgency order of the specification\<close>

text \<open>
  The specification orders the levels by urgency, CRITICAL < HIGH < MEDIUM < LOW < UNKNOWN,
  with CRITICAL the most urgent. \<open>spec_urgency_rank\<close> is the position of a level in
  this order, \<open>spec_urgency_of_int\<close> the same for the integer a level stands for, and
  \<open>spec_more_urgent\<close> the more urgent of two levels.
\<close>

fun spec_urgency_rank :: "FailurePriority \<Rightarrow> nat" where
  "spec_urgency_rank CRITICAL = 0"
| "spec_urgency_rank HIGH = 1"
| "spec_urgency_rank MEDIUM = 2"
| "spec_urgency_rank LOW = 3"
| "spec_urgency_rank UNKNOWN = 4"

definition spec_urgency_of_int :: "int \<Rightarrow> nat" where
  "spec_urgency_of_int p =
     (if p = 1 then 0 else if p = 2 then 1 else if p = 3 then 2 else if p = 4 then 3 else 4)"

definition spec_more_urgent :: "FailurePriority \<Rightarrow> FailurePriority \<Rightarrow> FailurePriority" where
  "spec_more_urgent a b = (if spec_urgency_rank b < spec_urgency_rank a then b else a)"

section \<open>Diagnostics (lambda/utils/helpers.py, lambda/diagnostics/handler.py)\<close>

text \<open>
  The diagnostics dictionary: the category flags set by the probes, the two agent flags
  and the two usage figures read by the score. A field is \<open>None\<close> when its key is absent.
\<close>

record diagnostics =
  application_failure :: "bool option"
  resource_bottleneck :: "bool option"
  agent_failure :: "bool option"
  os_level_failure :: "bool option"
  network_degradation :: "bool option"
  disk_corruption :: "bool option"
  unknown_state :: "bool option"
  ssm_agent_failure :: "bool option"
  cloudwatch_agent_failure :: "bool option"
  cpu_usage :: "real option"
  memory_usage :: "real option"

text \<open>The truth value of \<^verbatim>\<open>diagnostics.get(key)\<close> and of \<^verbatim>\<open>diagnostics.get(key, False)\<close>.\<close>

definition truthy :: "bool option \<Rightarrow> bool" where
  "truthy v = get_or v False"

definition calculate_diagnostic_score :: "diagnostics \<Rightarrow> real" where
  "calculate_diagnostic_score d =
     (let score = 100;
          score = (if truthy (application_failure d) then score - 40 else score);
          cpu = get_or (cpu_usage d) 0;
          score = (if cpu > 90 then score - 20 else if cpu > 80 then score - 10 else score);
          mem = get_or (memory_usage d) 0;
          score = (if mem > 90 then score - 20 else if mem > 80 then score - 10 else score);
          score = (if truthy (disk_corruption d) then score - 30 else score);
          score = (if truthy (network_degradation d) then score - 15 else score);
          score = (if truthy (ssm_agent_failure d) then score - 25 else score);
          score = (if truthy (cloudwatch_agent_failure d) then score - 10 else score)
      in max 0 score)"

definition classify_failure :: "diagnostics \<Rightarrow> string" where
  "classify_failure d =
     (if truthy (application_failure d) then ''Application Failure''
      else if truthy (disk_corruption d) then ''Disk Corruption''
      else if truthy (os_level_failure d) then ''OS-level Failure''
      else if truthy (network_degradation d) then ''Network Degradation''
      else if truthy (agent_failure d) then ''Agent Failure''
      else if truthy (resource_bottleneck d) then ''Resource Bottleneck''
      else if truthy (unknown_state d) then ''Unknown State''
      else ''Unknown State'')"

text \<open>
  The diagnostics handler, after \<^verbatim>\<open>_run_ssm_diagnostics\<close> has returned its dictionary
  (it catches every probe error itself). The calls it makes to the store and to the event
  bus are recorded in order; both swallow their own errors.
\<close>

datatype diag_effect =
  Store_diagnostics string string real
| Trigger_auto_heal string string real

record diag_body =
  body_instance_id :: string
  body_classification :: string
  body_diagnostic_score :: real

datatype diag_outcome =
  Diag_missing_instance_id
| Diag_completed "diag_effect list" diag_body

definition diagnostics_handler :: "event \<Rightarrow> diagnostics \<Rightarrow> diag_outcome" where
  "diagnostics_handler ev diagnostics_result =
     (let iid = extract_instance_id ev
      in if no_instance_id iid then Diag_missing_instance_id
         else
           let i = get_or iid [];
               failure_classification = classify_failure diagnostics_result;
               diagnostic_score = calculate_diagnostic_score diagnostics_result;
               effects = [Store_diagnostics i failure_classification diagnostic_score];
               effects =
                 (if diagnostic_score < 70 \<or>
                     failure_classification \<in>
                       set [''Application Failure'', ''OS-level Failure'', ''Disk Corruption'']
                  then effects @ [Trigger_auto_heal i failure_classification diagnostic_score]
                  else effects)
           in Diag_completed effects
                \<lparr>body_instance_id = i, body_classification = failure_classification,
                 body_diagnostic_score = diagnostic_score\<rparr>)"

fun is_trigger :: "diag_effect \<Rightarrow> bool" where
  "is_trigger (Trigger_auto_heal i c s) = True"
| "is_trigger (Store_diagnostics i c s) = False"

definition auto_heal_triggered :: "diag_effect list \<Rightarrow> bool" where
  "auto_heal_triggered effects = list_ex is_trigger effects"

text \<open>
  The score as the specification words it: 100 minus the sum of the penalties that apply,
  not below 0. A missing field has no penalty.
\<close>

definition spec_flag_penalty :: "bool option \<Rightarrow> real \<Rightarrow> real" where
  "spec_flag_penalty flag penalty = (case flag of Some True \<Rightarrow> penalty | _ \<Rightarrow> 0)"

definition spec_usage_penalty :: "real option \<Rightarrow> real" where
  "spec_usage_penalty usage =
     (case usage of
        None \<Rightarrow> 0
      | Some u \<Rightarrow> if u > 90 then 20 else if 80 < u \<and> u \<le> 90 then 10 else 0)"

definition spec_penalties :: "diagnostics \<Rightarrow> real list" where
  "spec_penalties d =
     [spec_flag_penalty (application_failure d) 40,
      spec_usage_penalty (cpu_usage d),
      spec_usage_penalty (memory_usage d),
      spec_flag_penalty (disk_corruption d) 30,
      spec_flag_penalty (network_degradation d) 15,
      spec_flag_penalty (ssm_agent_failure d) 25,
      spec_flag_penalty (cloudwatch_agent_failure d) 10]"

definition spec_score :: "diagnostics \<Rightarrow> real" where
  "spec_score d = max 0 (100 - sum_list (spec_penalties d))"

text \<open>
  The classification as the specification words it: the label of the first flag that is
  set, in the fixed order, and Unknown State when none is.
\<close>

definition spec_precedence :: "((diagnostics \<Rightarrow> bool option) \<times> string) list" where
  "spec_precedence =
     [(application_failure, ''Application Failure''),
      (disk_corruption, ''Disk Corruption''),
      (os_level_failure, ''OS-level Failure''),
      (network_degradation, ''Network Degradation''),
      (agent_failure, ''Agent Failure''),
      (resource_bottleneck, ''Resource Bottleneck''),
      (unknown_state, ''Unknown State'')]"

definition spec_first_match :: "diagnostics \<Rightarrow> string" where
  "spec_first_match d =
     (case find (\<lambda>(flag, label). flag d = Some True) spec_precedence of
        Some (flag, label) \<Rightarrow> label
      | None \<Rightarrow> ''Unknown State'')"

definition no_flag_set :: "diagnostics \<Rightarrow> bool" where
  "no_flag_set d = list_all (\<lambda>(flag, label). flag d \<noteq> Some True) spec_precedence"

text \<open>The report of a run in which no probe returned anything.\<close>

definition empty_diagnostics :: diagnostics where
  "empty_diagnostics =
     \<lparr>application_failure = None, resource_bottleneck = None, agent_failure = None,
      os_level_failure = None, network_degradation = None, disk_corruption = None,
      unknown_state = None, ssm_agent_failure = None, cloudwatch_agent_failure = None,
      cpu_usage = None, memory_usage = None\<rparr>"

section \<open>Flapping detection (lambda/utils/helpers.py, lambda/target\_monitor/handler.py)\<close>

text \<open>A health observation is a dictionary from attribute names to strings.\<close>

type_synonym health_item = "string \<rightharpoonup> string"

text \<open>
  The loop of \<^verbatim>\<open>check_flapping\<close> over \<^verbatim>\<open>range(1, len(health_history))\<close>; the
  indices it reads are within the list.
\<close>

definition count_state_changes :: "health_item list \<Rightarrow> int" where
  "count_state_changes health_history =
     fold (\<lambda>i state_changes.
             let prev_state = get_or ((health_history ! (i - 1)) ''state'') [];
                 curr_state = get_or ((health_history ! i) ''state'') []
             in if prev_state \<noteq> curr_state then state_changes + 1 else state_changes)
          [1..<length health_history] 0"

definition check_flapping :: "health_item list \<Rightarrow> int \<Rightarrow> bool" where
  "check_flapping health_history threshold =
     (if int (length health_history) < threshold * 2 then False
      else count_state_changes health_history \<ge> threshold)"

text \<open>
  \<^verbatim>\<open>_check_target_flapping\<close>, given what the query to the health table returns: an
  error, which the function catches, or the items of the response.
\<close>

definition check_target_flapping :: "string + health_item list \<Rightarrow> bool" where
  "check_target_flapping query =
     (case query of
        Inl e \<Rightarrow> False
      | Inr health_history \<Rightarrow>
          if length health_history < 6 then False
          else
            let states = map (\<lambda>item. item ''State'') health_history;
                changes = sum_list (map (\<lambda>i. (1::int))
                            (filter (\<lambda>i. states ! i \<noteq> states ! (i - 1)) [1..<length states]))
            in changes \<ge> 3)"

text \<open>
  The specification's words: the number of transitions of a sequence of states is the
  number of adjacent pairs that differ; a sequence alternates when every adjacent pair
  differs.
\<close>

fun spec_transitions :: "'a list \<Rightarrow> nat" where
  "spec_transitions (x # y # zs) = (if x \<noteq> y then 1 else 0) + spec_transitions (y # zs)"
| "spec_transitions _ = 0"

fun spec_alternating :: "'a list \<Rightarrow> bool" where
  "spec_alternating (x # y # zs) = (x \<noteq> y \<and> spec_alternating (y # zs))"
| "spec_alternating _ = True"

text \<open>The states the two functions compare.\<close>

definition states_of :: "health_item list \<Rightarrow> string list" where
  "states_of health_history = map (\<lambda>item. get_or (item ''state'') []) health_history"

definition State_of :: "health_item list \<Rightarrow> string option list" where
  "State_of health_history = map (\<lambda>item. item ''State'') health_history"

text \<open>
  Two example histories: six observations that change state at every sample, and six
  observations with a single change.
\<close>

definition observation :: "string \<Rightarrow> health_item" where
  "observation s = [''state'' \<mapsto> s, ''State'' \<mapsto> s]"

definition alternating_history :: "health_item list" where
  "alternating_history =
     map observation [''healthy'', ''unhealthy'', ''healthy'', ''unhealthy'', ''healthy'', ''unhealthy'']"

definition settled_history :: "health_item list" where
  "settled_history =
     map observation [''unhealthy'', ''healthy'', ''healthy'', ''healthy'', ''healthy'', ''healthy'']"

section \<open>Post-heal verification (lambda/verify/handler.py)\<close>

text \<open>
  Each verification check calls the provider and reads the response. A call either raises
  (\<open>Inl\<close> with the error text) or returns (\<open>Inr\<close>). The responses are kept as far as
  the checks read them: the list under \<^verbatim>\<open>InstanceInformationList\<close>, the instances of
  each reservation, the command id, and the standard output of a command after
  \<^verbatim>\<open>.strip()\<close> and parsing: the text for the health endpoint, the lines parsed by
  \<^verbatim>\<open>float\<close> for the resource check and the text parsed by \<^verbatim>\<open>int\<close> for the log
  check, \<open>None\<close> standing for the \<^verbatim>\<open>ValueError\<close> of the parser.
  Creating the provider clients, which every check does before its \<^verbatim>\<open>try\<close>, is
  not modelled.
\<close>

type_synonym exn = string

type_synonym aws_item = "string \<rightharpoonup> string"

record verify_probes =
  ssm_describe_instance_information :: "exn + aws_item list"
  app_describe_instances :: "exn + aws_item list list"
  app_send_command :: "exn + string option"
  app_get_command_invocation :: "exn + string"
  res_send_command :: "exn + string option"
  res_get_command_invocation :: "exn + real option list"
  log_send_command :: "exn + string option"
  log_get_command_invocation :: "exn + int option"
  lb_describe_target_groups :: "exn + aws_item list"
  lb_describe_instances :: "exn + aws_item list list"

text \<open>
  The result of a check; its \<^verbatim>\<open>message\<close>, and the usage figures the resource check
  adds, are texts for the reader that nothing tests, and are left out.
\<close>

record check_result =
  check :: string
  passed :: bool

definition result_of :: "string \<Rightarrow> bool \<Rightarrow> check_result" where
  "result_of name ok = \<lparr>check = name, passed = ok\<rparr>"

definition check_ssm_online :: "verify_probes \<Rightarrow> check_result" where
  "check_ssm_online p =
     (case ssm_describe_instance_information p of
        Inl e \<Rightarrow> result_of ''ssm_online'' False
      | Inr instance_info \<Rightarrow>
          (case instance_info of
             [] \<Rightarrow> result_of ''ssm_online'' False
           | info # rest \<Rightarrow>
               let ping_status = get_or (info ''PingStatus'') []
               in if ping_status = ''Online'' then result_of ''ssm_online'' True
                  else result_of ''ssm_online'' False))"

definition check_app_health_endpoint :: "verify_probes \<Rightarrow> check_result" where
  "check_app_health_endpoint p =
     (case app_describe_instances p of
        Inl e \<Rightarrow> result_of ''app_health'' False
      | Inr reservations \<Rightarrow>
          (case reservations of
             [] \<Rightarrow> result_of ''app_health'' False
           | instances # rest \<Rightarrow>
               (case instances of
                  [] \<Rightarrow> result_of ''app_health'' False
                | instance # others \<Rightarrow>
                    let private_ip = get_or (instance ''PrivateIpAddress'') []
                    in if private_ip = [] then result_of ''app_health'' False
                       else
                         (case app_send_command p of
                            Inl e \<Rightarrow> result_of ''app_health'' False
                          | Inr command_id \<Rightarrow>
                              (case app_get_command_invocation p of
                                 Inl e \<Rightarrow> result_of ''app_health'' False
                               | Inr output \<Rightarrow>
                                   if output = ''200'' \<or> take 1 output = ''2''
                                   then result_of ''app_health'' True
                                   else result_of ''app_health'' False)))))"

definition check_resource_usage :: "verify_probes \<Rightarrow> check_result" where
  "check_resource_usage p =
     (case res_send_command p of
        Inl e \<Rightarrow> result_of ''resource_usage'' False
      | Inr command_id \<Rightarrow>
          (case res_get_command_invocation p of
             Inl e \<Rightarrow> result_of ''resource_usage'' False
           | Inr output \<Rightarrow>
               if length output \<ge> 2 then
                 (case output ! 0 of
                    None \<Rightarrow> result_of ''resource_usage'' False
                  | Some cpu \<Rightarrow>
                      (case output ! 1 of
                         None \<Rightarrow> result_of ''resource_usage'' False
                       | Some mem \<Rightarrow>
                           if cpu < 90 \<and> mem < 90 then result_of ''resource_usage'' True
                           else result_of ''resource_usage'' False))
               else result_of ''resource_usage'' False))"

text \<open>
  The log check is the one whose \<^verbatim>\<open>except\<close> branch sets \<^verbatim>\<open>passed\<close> to true:
  ``If we can't check logs, assume passed (non-critical)''.
\<close>

definition check_log_anomalies :: "verify_probes \<Rightarrow> check_result" where
  "check_log_anomalies p =
     (case log_send_command p of
        Inl e \<Rightarrow> result_of ''log_anomalies'' True
      | Inr command_id \<Rightarrow>
          (case log_get_command_invocation p of
             Inl e \<Rightarrow> result_of ''log_anomalies'' True
           | Inr None \<Rightarrow> result_of ''log_anomalies'' True
           | Inr (Some error_count) \<Rightarrow>
               if error_count < 10 then result_of ''log_anomalies'' True
               else result_of ''log_anomalies'' False))"

definition simulate_lb_health_check :: "verify_probes \<Rightarrow> check_result" where
  "simulate_lb_health_check p =
     (case lb_describe_target_groups p of
        Inl e \<Rightarrow> result_of ''lb_health_simulation'' False
      | Inr target_groups \<Rightarrow>
          (case target_groups of
             [] \<Rightarrow> result_of ''lb_health_simulation'' False
           | tg # rest \<Rightarrow>
               (case lb_describe_instances p of
                  Inl e \<Rightarrow> result_of ''lb_health_simulation'' False
                | Inr reservations \<Rightarrow>
                    (case reservations of
                       [] \<Rightarrow> result_of ''lb_health_simulation'' False
                     | instances # rest_reservations \<Rightarrow>
                         (case instances of
                            [] \<Rightarrow> result_of ''lb_health_simulation'' False
                          | instance # others \<Rightarrow> result_of ''lb_health_simulation'' True)))))"

text \<open>
  The dictionary \<^verbatim>\<open>_run_verification_checks\<close> builds; \<^verbatim>\<open>checks\<close> keeps its entries
  in the order they are stored.
\<close>

record verification =
  all_checks_passed :: bool
  checks :: "(string \<times> check_result) list"
  failed_checks :: "string list"

text \<open>One step: store the result under its name, and append the name when it did not pass.\<close>

definition record_check :: "string \<Rightarrow> check_result \<Rightarrow> verification \<Rightarrow> verification" where
  "record_check name result v =
     (let v = v\<lparr>checks := checks v @ [(name, result)]\<rparr>
      in if \<not> passed result then v\<lparr>failed_checks := failed_checks v @ [name]\<rparr> else v)"

definition run_verification_checks :: "verify_probes \<Rightarrow> verification" where
  "run_verification_checks p =
     (let v = \<lparr>all_checks_passed = False, checks = [], failed_checks = []\<rparr>;
          v = record_check ''ssm_online'' (check_ssm_online p) v;
          v = record_check ''app_health'' (check_app_health_endpoint p) v;
          v = record_check ''resource_usage'' (check_resource_usage p) v;
          v = record_check ''log_anomalies'' (check_log_anomalies p) v;
          v = record_check ''lb_health_simulation'' (simulate_lb_health_check p) v
      in v\<lparr>all_checks_passed := (length (failed_checks v) = 0)\<rparr>)"

text \<open>
  The verification handler. \<^verbatim>\<open>_wait_for_instance_ready\<close> (called for a replaced
  instance) and \<^verbatim>\<open>_reregister_target\<close> either return or raise, and what they raise
  leaves the handler; storing the result and notifying swallow their errors.
\<close>

datatype verify_outcome =
  Verify_missing_instance_id
| Verify_raised exn
| Verify_done bool verification

definition verify_handler ::
  "event \<Rightarrow> exn option \<Rightarrow> verify_probes \<Rightarrow> exn option \<Rightarrow> verify_outcome" where
  "verify_handler ev wait_for_instance_ready p reregister_target =
     (let iid = extract_instance_id ev;
          action = get_or (ev_action ev) ''repair''
      in if no_instance_id iid then Verify_missing_instance_id
         else
           (case (if action = ''replace'' then wait_for_instance_ready else None) of
              Some e \<Rightarrow> Verify_raised e
            | None \<Rightarrow>
                let verification_result = run_verification_checks p
                in if all_checks_passed verification_result
                   then (case reregister_target of
                           Some e \<Rightarrow> Verify_raised e
                         | None \<Rightarrow> Verify_done True verification_result)
                   else Verify_done False verification_result))"

text \<open>Whether the probe of a check raised an error (or its output could not be parsed).\<close>

definition ssm_probe_raised :: "verify_probes \<Rightarrow> bool" where
  "ssm_probe_raised p = isl (ssm_describe_instance_information p)"

definition app_probe_raised :: "verify_probes \<Rightarrow> bool" where
  "app_probe_raised p =
     (isl (app_describe_instances p) \<or> isl (app_send_command p) \<or>
      isl (app_get_command_invocation p))"

definition resource_probe_raised :: "verify_probes \<Rightarrow> bool" where
  "resource_probe_raised p =
     (isl (res_send_command p) \<or> isl (res_get_command_invocation p))"

definition log_probe_raised :: "verify_probes \<Rightarrow> bool" where
  "log_probe_raised p =
     (isl (log_send_command p) \<or> isl (log_get_command_invocation p) \<or>
      log_get_command_invocation p = Inr None)"

definition lb_probe_raised :: "verify_probes \<Rightarrow> bool" where
  "lb_probe_raised p =
     (isl (lb_describe_target_groups p) \<or> isl (lb_describe_instances p))"

text \<open>The \<^verbatim>\<open>passed\<close> flag stored for a check.\<close>

definition check_passed :: "verification \<Rightarrow> string \<Rightarrow> bool" where
  "check_passed v name = (case map_of (checks v) name of None \<Rightarrow> False | Some c \<Rightarrow> passed c)"

definition check_names :: "string list" where
  "check_names =
     [''ssm_online'', ''app_health'', ''resource_usage'', ''log_anomalies'',
      ''lb_health_simulation'']"

text \<open>
  Example probes: a healthy instance whose log probe cannot be run, and an instance for
  which every call raises.
\<close>

definition healthy_instance :: aws_item where
  "healthy_instance = [''PrivateIpAddress'' \<mapsto> ''10.0.0.5'']"

definition log_probe_down :: verify_probes where
  "log_probe_down =
     \<lparr>ssm_describe_instance_information = Inr [[''PingStatus'' \<mapsto> ''Online'']],
      app_describe_instances = Inr [[healthy_instance]],
      app_send_command = Inr (Some ''cmd-1''),
      app_get_command_invocation = Inr ''200'',
      res_send_command = Inr (Some ''cmd-2''),
      res_get_command_invocation = Inr [Some 12, Some 40],
      log_send_command = Inl ''AccessDenied'',
      log_get_command_invocation = Inl ''AccessDenied'',
      lb_describe_target_groups = Inr [Map.empty],
      lb_describe_instances = Inr [[healthy_instance]]\<rparr>"

definition all_probes_down :: verify_probes where
  "all_probes_down =
     \<lparr>ssm_describe_instance_information = Inl ''Timeout'',
      app_describe_instances = Inl ''Timeout'',
      app_send_command = Inl ''Timeout'',
      app_get_command_invocation = Inl ''Timeout'',
      res_send_command = Inl ''Timeout'',
      res_get_command_invocation = Inl ''Timeout'',
      log_send_command = Inl ''Timeout'',
      log_get_command_invocation = Inl ''Timeout'',
      lb_describe_target_groups = Inl ''Timeout'',
      lb_describe_instances = Inl ''Timeout''\<rparr>"

definition repaired_event :: event where
  "repaired_event =
     \<lparr>ev_instance_id = Some ''i-0abc'', ev_detail = None, ev_target_group_arn = Some ''tg'',
      ev_diagnostic_score = None, ev_classification = None, ev_issue_type = None,
      ev_action = Some ''repair''\<rparr>"

text \<open>Probes of an instance on which every check can run and passes.\<close>

definition all_probes_healthy :: verify_probes where
  "all_probes_healthy =
     \<lparr>ssm_describe_instance_information = Inr [[''PingStatus'' \<mapsto> ''Online'']],
      app_describe_instances = Inr [[healthy_instance]],
      app_send_command = Inr (Some ''cmd-1''),
      app_get_command_invocation = Inr ''200'',
      res_send_command = Inr (Some ''cmd-2''),
      res_get_command_invocation = Inr [Some 12, Some 40],
      log_send_command = Inr (Some ''cmd-3''),
      log_get_command_invocation = Inr (Some 0),
      lb_describe_target_groups = Inr [Map.empty],
      lb_describe_instances = Inr [[healthy_instance]]\<rparr>"

section \<open>Properties of the priority calculator\<close>

lemma priority_int_range: "priority_int p \<in> {0, 1, 2, 3, 4}"
  by (cases p) simp_all

lemma base_priority_not_LOW: "base_priority_of c \<noteq> LOW"
  by (simp add: base_priority_of_def PRIORITY_MAP_def)

lemma min_priority_HIGH_not_LOW: "p \<noteq> LOW \<Longrightarrow> min_priority p HIGH \<noteq> LOW"
  by (cases p) (simp_all add: min_priority_def)

lemma adjusted_not_LOW:
  "adjust_for_attempts (adjust_for_score (base_priority_of c) s) a \<noteq> LOW"
  using base_priority_not_LOW [of c] min_priority_HIGH_not_LOW [of "base_priority_of c"]
  by (simp add: adjust_for_attempts_def adjust_for_score_def)

lemma priority_int_4: "priority_int p = 4 \<longleftrightarrow> p = LOW"
  by (cases p) simp_all

text \<open>
  C2. For every classification, score and attempt count the priority lies in
  \<open>{0,1,2,3,4}\<close>, and two or more repair attempts give 1 (CRITICAL) whatever the
  classification and the score.
\<close>

theorem C2_priority_range_and_attempts:
  "calculate_repair_priority c s a \<in> {0, 1, 2, 3, 4} \<and>
   (a \<ge> 2 \<longrightarrow> calculate_repair_priority c s a = 1)"
  unfolding calculate_repair_priority_def
  using priority_int_range by (simp add: adjust_for_attempts_def)

theorem C2_priority_range_and_attempts_witness:
  "calculate_repair_priority ''Network Degradation'' 80 2 \<in> {0, 1, 2, 3, 4} \<and>
   ((2::int) \<ge> 2 \<and> calculate_repair_priority ''Network Degradation'' 80 2 = 1)"
  using C2_priority_range_and_attempts [of "''Network Degradation''" 80 2] by simp

text \<open>
  C10. The priority is never 4 (LOW): no classification has LOW as its base priority and
  no override produces it, so the values taken are exactly 0, 1, 2 and 3.
\<close>

theorem C10_priority_never_LOW:
  "calculate_repair_priority c s a \<noteq> 4 \<and>
   range (\<lambda>(c, s, a). calculate_repair_priority c s a) = {0, 1, 2, 3}"
proof -
  have never: "calculate_repair_priority c' s' a' \<noteq> 4" for c' s' a'
    unfolding calculate_repair_priority_def priority_int_4 by (rule adjusted_not_LOW)
  have sub: "range (\<lambda>(c, s, a). calculate_repair_priority c s a) \<subseteq> {0, 1, 2, 3}"
  proof
    fix v assume "v \<in> range (\<lambda>(c, s, a). calculate_repair_priority c s a)"
    then obtain c' s' a' where v: "v = calculate_repair_priority c' s' a'" by auto
    have "v \<in> {0, 1, 2, 3, 4}"
      unfolding v calculate_repair_priority_def by (rule priority_int_range)
    with never [of c' s' a'] v show "v \<in> {0, 1, 2, 3}" by auto
  qed
  have v0: "calculate_repair_priority ''Unknown State'' 50 0 = 0"
    by (simp add: calculate_repair_priority_def adjust_for_attempts_def adjust_for_score_def
        base_priority_of_def PRIORITY_MAP_def)
  have v1: "calculate_repair_priority ''Application Failure'' 50 0 = 1"
    by (simp add: calculate_repair_priority_def adjust_for_attempts_def adjust_for_score_def
        base_priority_of_def PRIORITY_MAP_def)
  have v2: "calculate_repair_priority ''Agent Failure'' 50 0 = 2"
    by (simp add: calculate_repair_priority_def adjust_for_attempts_def adjust_for_score_def
        base_priority_of_def PRIORITY_MAP_def)
  have v3: "calculate_repair_priority ''Resource Bottleneck'' 50 0 = 3"
    by (simp add: calculate_repair_priority_def adjust_for_attempts_def adjust_for_score_def
        base_priority_of_def PRIORITY_MAP_def)
  have sup: "{0, 1, 2, 3} \<subseteq> range (\<lambda>(c, s, a). calculate_repair_priority c s a)"
  proof
    fix v :: int assume "v \<in> {0, 1, 2, 3}"
    then consider "v = 0" | "v = 1" | "v = 2" | "v = 3" by auto
    then show "v \<in> range (\<lambda>(c, s, a). calculate_repair_priority c s a)"
    proof cases
      case 1
      then have "v = (\<lambda>(c, s, a). calculate_repair_priority c s a) (''Unknown State'', 50, 0)"
        using v0 by simp
      then show ?thesis by (rule range_eqI)
    next
      case 2
      then have "v = (\<lambda>(c, s, a). calculate_repair_priority c s a) (''Application Failure'', 50, 0)"
        using v1 by simp
      then show ?thesis by (rule range_eqI)
    next
      case 3
      then have "v = (\<lambda>(c, s, a). calculate_repair_priority c s a) (''Agent Failure'', 50, 0)"
        using v2 by simp
      then show ?thesis by (rule range_eqI)
    next
      case 4
      then have "v = (\<lambda>(c, s, a). calculate_repair_priority c s a) (''Resource Bottleneck'', 50, 0)"
        using v3 by simp
      then show ?thesis by (rule range_eqI)
    qed
  qed
  from never sub sup show ?thesis by blast
qed

section \<open>Properties of the decision engine\<close>

lemma min_priority_HIGH_int:
  "priority_int (min_priority p HIGH) = min (priority_int p) (priority_int HIGH)"
  by (cases p) (simp_all add: min_priority_def)

lemma spec_urgency_of_priority_int: "spec_urgency_of_int (priority_int p) = spec_urgency_rank p"
  by (cases p) (simp_all add: spec_urgency_of_int_def)

lemma min_priority_HIGH_tightens:
  "spec_urgency_rank (min_priority p HIGH) \<le> spec_urgency_rank p"
  by (cases p) (simp_all add: min_priority_def)

lemma min_priority_HIGH_more_urgent:
  "p \<noteq> UNKNOWN \<Longrightarrow> min_priority p HIGH = spec_more_urgent p HIGH"
  by (cases p) (simp_all add: min_priority_def spec_more_urgent_def)

text \<open>
  C5, as stated, at a classification whose base priority is UNKNOWN: with a score of 30
  and no repair attempt the result is 0 (UNKNOWN), while the more urgent of UNKNOWN and
  HIGH in the urgency order is HIGH.
\<close>

theorem C5_unknown_base_counterexample:
  "calculate_repair_priority ''Unknown State'' 30 0
     \<noteq> priority_int (spec_more_urgent (base_priority_of ''Unknown State'') HIGH)"
  by (simp add: calculate_repair_priority_def adjust_for_attempts_def adjust_for_score_def
      base_priority_of_def PRIORITY_MAP_def min_priority_def spec_more_urgent_def)

text \<open>
  C5, amended. With fewer than two repair attempts the returned priority is never less
  urgent than the base priority of the classification, in the urgency order
  CRITICAL < HIGH < MEDIUM < LOW < UNKNOWN. For a score from 20 up to, but not including, 40
  it is the numerically smaller of the two integer levels of the base priority and HIGH;
  this is the more urgent of the two whenever the base priority is not UNKNOWN (an UNKNOWN
  base, the integer 0, is returned as it is).
\<close>

theorem C5_overrides_tighten:
  assumes "a < 2"
  shows "spec_urgency_of_int (calculate_repair_priority c s a)
           \<le> spec_urgency_rank (base_priority_of c) \<and>
         (20 \<le> s \<and> s < 40 \<longrightarrow>
            calculate_repair_priority c s a
              = min (priority_int (base_priority_of c)) (priority_int HIGH)) \<and>
         (20 \<le> s \<and> s < 40 \<and> base_priority_of c \<noteq> UNKNOWN \<longrightarrow>
            calculate_repair_priority c s a
              = priority_int (spec_more_urgent (base_priority_of c) HIGH))"
proof -
  let ?b = "base_priority_of c"
  have res: "calculate_repair_priority c s a = priority_int (adjust_for_score ?b s)"
    using assms by (simp add: calculate_repair_priority_def adjust_for_attempts_def)
  have "spec_urgency_rank (adjust_for_score ?b s) \<le> spec_urgency_rank ?b"
    using min_priority_HIGH_tightens [of ?b] by (simp add: adjust_for_score_def)
  then have tight: "spec_urgency_of_int (calculate_repair_priority c s a) \<le> spec_urgency_rank ?b"
    by (simp add: res spec_urgency_of_priority_int)
  have mid: "adjust_for_score ?b s = min_priority ?b HIGH" if "20 \<le> s" "s < 40"
    using that by (simp add: adjust_for_score_def)
  have numeric: "calculate_repair_priority c s a = min (priority_int ?b) (priority_int HIGH)"
    if "20 \<le> s" "s < 40"
    using mid [OF that] min_priority_HIGH_int [of ?b] by (simp add: res)
  have urgent: "calculate_repair_priority c s a = priority_int (spec_more_urgent ?b HIGH)"
    if "20 \<le> s" "s < 40" "?b \<noteq> UNKNOWN"
    using mid [OF that(1,2)] min_priority_HIGH_more_urgent [OF that(3)] by (simp add: res)
  from tight numeric urgent show ?thesis by blast
qed

theorem C5_overrides_tighten_witness:
  "(0::int) < 2 \<and> (20::real) \<le> 35 \<and> (35::real) < 40 \<and>
   base_priority_of ''Resource Bottleneck'' \<noteq> UNKNOWN \<and>
   spec_urgency_of_int (calculate_repair_priority ''Resource Bottleneck'' 35 0)
     \<le> spec_urgency_rank (base_priority_of ''Resource Bottleneck'') \<and>
   calculate_repair_priority ''Resource Bottleneck'' 35 0
     = min (priority_int (base_priority_of ''Resource Bottleneck'')) (priority_int HIGH) \<and>
   calculate_repair_priority ''Resource Bottleneck'' 35 0
     = priority_int (spec_more_urgent (base_priority_of ''Resource Bottleneck'') HIGH)"
proof -
  have a: "(0::int) < 2" by simp
  have b: "base_priority_of ''Resource Bottleneck'' \<noteq> UNKNOWN"
    by (simp add: base_priority_of_def PRIORITY_MAP_def)
  have r: "(20::real) \<le> 35 \<and> (35::real) < 40" by simp
  from C5_overrides_tighten [OF a, where c = "''Resource Bottleneck''" and s = 35] a b r
  show ?thesis by blast
qed

lemma decide_skip:
  assumes "should_skip_repair (self_classification m) (self_diagnostic_score m)
             (self_instance_config m)"
  shows "skip (decide m) \<and> action (decide m) = None"
  using assms by (simp add: decide_def initial_decision_def)

lemma decide_not_skipped:
  "\<not> skip (decide m) \<longleftrightarrow>
     \<not> should_skip_repair (self_classification m) (self_diagnostic_score m)
          (self_instance_config m)"
  by (simp add: decide_def initial_decision_def Let_def)

lemma skip_conditions:
  "get_or (skip_recovery cfg) False \<or> s < 10 \<or> c = ''OS-level Failure'' \<or> c = ''Disk Corruption''
     \<Longrightarrow> should_skip_repair c s cfg"
  by (auto simp add: should_skip_repair_def)

text \<open>
  C3. A decision is skipped exactly when \<^verbatim>\<open>should_skip_repair\<close> holds of the
  inputs. For a decision that is not skipped: a score below 30 or at least two repair
  attempts give the action replace with a timeout of 1800 seconds; otherwise the action is
  repair with the repair timeout of the classification.
\<close>

theorem C3_replace_or_repair:
  "(skip (decide m) \<longleftrightarrow>
      should_skip_repair (self_classification m) (self_diagnostic_score m)
        (self_instance_config m)) \<and>
   (\<not> should_skip_repair (self_classification m) (self_diagnostic_score m)
        (self_instance_config m) \<longrightarrow>
      (if self_diagnostic_score m < 30 \<or> self_repair_attempts m \<ge> 2
       then action (decide m) = Some ''replace'' \<and> timeout_seconds (decide m) = 1800
       else action (decide m) = Some ''repair'' \<and>
            timeout_seconds (decide m) = get_repair_timeout (self_classification m))) \<and>
   (\<not> skip (decide m) \<longrightarrow>
      (if self_diagnostic_score m < 30 \<or> self_repair_attempts m \<ge> 2
       then action (decide m) = Some ''replace'' \<and> timeout_seconds (decide m) = 1800
       else action (decide m) = Some ''repair'' \<and>
            timeout_seconds (decide m) = get_repair_timeout (self_classification m)))"
proof -
  let ?skip = "should_skip_repair (self_classification m) (self_diagnostic_score m)
                 (self_instance_config m)"
  let ?branch = "if self_diagnostic_score m < 30 \<or> self_repair_attempts m \<ge> 2
       then action (decide m) = Some ''replace'' \<and> timeout_seconds (decide m) = 1800
       else action (decide m) = Some ''repair'' \<and>
            timeout_seconds (decide m) = get_repair_timeout (self_classification m)"
  have sk: "skip (decide m) \<longleftrightarrow> ?skip"
    using decide_not_skipped [of m] by blast
  have br: ?branch if ns: "\<not> ?skip"
  proof (cases "self_diagnostic_score m < 30 \<or> self_repair_attempts m \<ge> 2")
    case True
    then have "should_replace_instance (self_diagnostic_score m) (self_repair_attempts m)"
      by (auto simp add: should_replace_instance_def)
    with ns True show ?thesis by (simp add: decide_def initial_decision_def Let_def)
  next
    case False
    then have "\<not> should_replace_instance (self_diagnostic_score m) (self_repair_attempts m)"
      by (auto simp add: should_replace_instance_def)
    with ns False show ?thesis by (simp add: decide_def initial_decision_def Let_def)
  qed
  from sk br show ?thesis by blast
qed

theorem C3_replace_or_repair_witness:
  "\<not> should_skip_repair ''Network Degradation'' 80 \<lparr>skip_recovery = None, cooldown_minutes = None\<rparr> \<and>
   \<not> skip (make_decision ''i-1'' ''Network Degradation'' 80 2
             \<lparr>skip_recovery = None, cooldown_minutes = None\<rparr>) \<and>
   action (make_decision ''i-1'' ''Network Degradation'' 80 2
             \<lparr>skip_recovery = None, cooldown_minutes = None\<rparr>) = Some ''replace'' \<and>
   timeout_seconds (make_decision ''i-1'' ''Network Degradation'' 80 2
             \<lparr>skip_recovery = None, cooldown_minutes = None\<rparr>) = 1800 \<and>
   action (make_decision ''i-1'' ''Resource Bottleneck'' 25 0
             \<lparr>skip_recovery = None, cooldown_minutes = None\<rparr>) = Some ''replace'' \<and>
   timeout_seconds (make_decision ''i-1'' ''Resource Bottleneck'' 25 0
             \<lparr>skip_recovery = None, cooldown_minutes = None\<rparr>) = 1800 \<and>
   \<not> should_skip_repair ''Agent Failure'' 50 \<lparr>skip_recovery = None, cooldown_minutes = None\<rparr> \<and>
   \<not> skip (make_decision ''i-1'' ''Agent Failure'' 50 0
             \<lparr>skip_recovery = None, cooldown_minutes = None\<rparr>) \<and>
   action (make_decision ''i-1'' ''Agent Failure'' 50 0
             \<lparr>skip_recovery = None, cooldown_minutes = None\<rparr>) = Some ''repair'' \<and>
   timeout_seconds (make_decision ''i-1'' ''Agent Failure'' 50 0
             \<lparr>skip_recovery = None, cooldown_minutes = None\<rparr>) = 900"
proof -
  let ?cfg = "\<lparr>skip_recovery = None, cooldown_minutes = None\<rparr>"
  let ?m1 = "\<lparr>self_instance_id = ''i-1'', self_classification = ''Network Degradation'',
              self_diagnostic_score = 80, self_repair_attempts = 2,
              self_instance_config = ?cfg\<rparr>"
  let ?m2 = "\<lparr>self_instance_id = ''i-1'', self_classification = ''Resource Bottleneck'',
              self_diagnostic_score = 25, self_repair_attempts = 0,
              self_instance_config = ?cfg\<rparr>"
  let ?m3 = "\<lparr>self_instance_id = ''i-1'', self_classification = ''Agent Failure'',
              self_diagnostic_score = 50, self_repair_attempts = 0,
              self_instance_config = ?cfg\<rparr>"
  have n1: "\<not> should_skip_repair ''Network Degradation'' 80 ?cfg"
    by (simp add: should_skip_repair_def get_or_def)
  have n2: "\<not> should_skip_repair ''Resource Bottleneck'' 25 ?cfg"
    by (simp add: should_skip_repair_def get_or_def)
  have n3: "\<not> should_skip_repair ''Agent Failure'' 50 ?cfg"
    by (simp add: should_skip_repair_def get_or_def)
  have t: "get_repair_timeout ''Agent Failure'' = 900"
    by (simp add: get_repair_timeout_def repair_timeouts_def get_or_def)
  have r1: "\<not> skip (decide ?m1) \<and> action (decide ?m1) = Some ''replace'' \<and>
            timeout_seconds (decide ?m1) = 1800"
    using C3_replace_or_repair [of ?m1] n1 by simp
  have r2: "action (decide ?m2) = Some ''replace'' \<and> timeout_seconds (decide ?m2) = 1800"
    using C3_replace_or_repair [of ?m2] n2 by simp
  have r3: "\<not> skip (decide ?m3) \<and> action (decide ?m3) = Some ''repair'' \<and>
            timeout_seconds (decide ?m3) = 900"
    using C3_replace_or_repair [of ?m3] n3 t by simp
  from n1 n3 r1 r2 r3 show ?thesis by (simp add: make_decision_def)
qed

lemma handler_skip_recovery:
  "get_or (skip_recovery (stored_instance_config store)) False
     \<Longrightarrow> issued_action (auto_heal_handler ev store) = None"
  by (simp add: auto_heal_handler_def Let_def)

lemma handler_low_score_replaces:
  assumes "ev_instance_id ev = Some i" "i \<noteq> []"
    and "\<not> get_or (skip_recovery (stored_instance_config store)) False"
    and "\<not> is_in_cooldown store"
    and "ev_diagnostic_score ev = Some s" "s < 10"
  shows "auto_heal_handler ev store = Replace_issued i"
  using assms
  by (simp add: auto_heal_handler_def Let_def extract_instance_id_def no_instance_id_def
      get_or_def should_replace_instance_def)

text \<open>
  C1. The decision engine skips an instance whose score is below 10 or whose classification
  is OS-level Failure or Disk Corruption (\<open>decide_skip\<close>, \<open>skip_conditions\<close>), and the
  handler issues nothing when \<open>skip_recovery\<close> is set (\<open>handler_skip_recovery\<close>). The
  handler does not consult the other two skip rules: for the event the diagnostics stage
  emits for a report with application failure, disk corruption and SSM agent failure
  (classification Application Failure, score 5) it issues a replace, and for the event of
  a report with disk corruption alone (classification Disk Corruption, score 70) it issues
  a repair, while the decision engine skips both.
\<close>

theorem C1_handler_acts_where_decide_skips:
  "skip (make_decision ''i-0abc'' ''Application Failure'' 5 0
           \<lparr>skip_recovery = None, cooldown_minutes = None\<rparr>) \<and>
   action (make_decision ''i-0abc'' ''Application Failure'' 5 0
           \<lparr>skip_recovery = None, cooldown_minutes = None\<rparr>) = None \<and>
   issued_action
     (auto_heal_handler
        \<lparr>ev_instance_id = Some ''i-0abc'', ev_detail = None,
         ev_target_group_arn = Some ''tg'', ev_diagnostic_score = Some 5,
         ev_classification = Some ''Application Failure'', ev_issue_type = None, ev_action = None\<rparr>
        \<lparr>stored_instance_config = \<lparr>skip_recovery = None, cooldown_minutes = None\<rparr>,
         is_in_cooldown = False, get_repair_attempts = 0\<rparr>) = Some ''replace'' \<and>
   skip (make_decision ''i-0abc'' ''Disk Corruption'' 70 0
           \<lparr>skip_recovery = None, cooldown_minutes = None\<rparr>) \<and>
   action (make_decision ''i-0abc'' ''Disk Corruption'' 70 0
           \<lparr>skip_recovery = None, cooldown_minutes = None\<rparr>) = None \<and>
   issued_action
     (auto_heal_handler
        \<lparr>ev_instance_id = Some ''i-0abc'', ev_detail = None,
         ev_target_group_arn = Some ''tg'', ev_diagnostic_score = Some 70,
         ev_classification = Some ''Disk Corruption'', ev_issue_type = None, ev_action = None\<rparr>
        \<lparr>stored_instance_config = \<lparr>skip_recovery = None, cooldown_minutes = None\<rparr>,
         is_in_cooldown = False, get_repair_attempts = 0\<rparr>) = Some ''repair''"
  by (simp add: make_decision_def decide_def initial_decision_def should_skip_repair_def
      auto_heal_handler_def Let_def extract_instance_id_def no_instance_id_def get_or_def
      should_replace_instance_def)

section \<open>Properties of the diagnostic classifier\<close>

lemma truthy_Some_True: "truthy v \<longleftrightarrow> v = Some True"
  by (cases v) (simp_all add: truthy_def get_or_def)

lemma spec_flag_penalty_truthy:
  "spec_flag_penalty v k = (if truthy v then k else 0)"
  by (cases v) (simp_all add: spec_flag_penalty_def truthy_def get_or_def)

lemma spec_usage_penalty_get_or:
  "spec_usage_penalty v = (if get_or v 0 > 90 then 20 else if get_or v 0 > 80 then 10 else 0)"
  by (cases v) (simp_all add: spec_usage_penalty_def get_or_def)

lemma spec_usage_penalty_bounds: "0 \<le> spec_usage_penalty v \<and> spec_usage_penalty v \<le> 20"
  by (simp add: spec_usage_penalty_get_or)

lemma spec_flag_penalty_nonneg: "0 \<le> k \<Longrightarrow> 0 \<le> spec_flag_penalty v k"
  by (simp add: spec_flag_penalty_truthy)

lemma spec_penalties_nonneg: "0 \<le> sum_list (spec_penalties d)"
  using spec_usage_penalty_bounds [of "cpu_usage d"] spec_usage_penalty_bounds [of "memory_usage d"]
    spec_flag_penalty_nonneg [of 40 "application_failure d"]
    spec_flag_penalty_nonneg [of 30 "disk_corruption d"]
    spec_flag_penalty_nonneg [of 15 "network_degradation d"]
    spec_flag_penalty_nonneg [of 25 "ssm_agent_failure d"]
    spec_flag_penalty_nonneg [of 10 "cloudwatch_agent_failure d"]
  by (simp add: spec_penalties_def)

lemma score_step: "(if b then s - k else s) = s - (if b then k else (0::real))"
  by simp

lemma score_step2:
  "(if b then s - k else if c then s - l else s) = s - (if b then k else if c then l else (0::real))"
  by simp

lemma calculate_diagnostic_score_spec: "calculate_diagnostic_score d = spec_score d"
  unfolding calculate_diagnostic_score_def spec_score_def spec_penalties_def Let_def
    spec_flag_penalty_truthy spec_usage_penalty_get_or score_step score_step2
  by (simp add: algebra_simps)

text \<open>
  C4. The diagnostic score is 100 minus the sum of the penalties that apply (a missing
  field has none), not below 0; so it lies between 0 and 100, and the empty report
  scores 100.
\<close>

theorem C4_score_is_clamped_penalty_sum:
  "calculate_diagnostic_score d = max 0 (100 - sum_list (spec_penalties d)) \<and>
   0 \<le> calculate_diagnostic_score d \<and> calculate_diagnostic_score d \<le> 100 \<and>
   sum_list (spec_penalties empty_diagnostics) = 0 \<and>
   calculate_diagnostic_score empty_diagnostics = 100"
proof -
  have eq: "calculate_diagnostic_score d' = max 0 (100 - sum_list (spec_penalties d'))" for d'
    using calculate_diagnostic_score_spec [of d'] by (simp add: spec_score_def)
  have e: "sum_list (spec_penalties empty_diagnostics) = 0"
    by (simp add: spec_penalties_def empty_diagnostics_def spec_flag_penalty_def
        spec_usage_penalty_def)
  from eq [of d] eq [of empty_diagnostics] e spec_penalties_nonneg [of d]
  show ?thesis by simp
qed

lemma classify_failure_first_match: "classify_failure d = spec_first_match d"
  by (simp add: classify_failure_def spec_first_match_def spec_precedence_def truthy_Some_True)

text \<open>
  C6. The classification is the label of the first flag set, in the order
  application failure, disk corruption, OS-level failure, network degradation, agent
  failure, resource bottleneck, unknown state; a report with no flag set is classified
  Unknown State.
\<close>

theorem C6_first_match_wins:
  "classify_failure d =
     (case find (\<lambda>(flag, label). flag d = Some True) spec_precedence of
        Some (flag, label) \<Rightarrow> label
      | None \<Rightarrow> ''Unknown State'') \<and>
   map snd spec_precedence =
     [''Application Failure'', ''Disk Corruption'', ''OS-level Failure'',
      ''Network Degradation'', ''Agent Failure'', ''Resource Bottleneck'', ''Unknown State''] \<and>
   (no_flag_set d \<longrightarrow> classify_failure d = ''Unknown State'')"
proof -
  have a: "classify_failure d =
     (case find (\<lambda>(flag, label). flag d = Some True) spec_precedence of
        Some (flag, label) \<Rightarrow> label
      | None \<Rightarrow> ''Unknown State'')"
    using classify_failure_first_match [of d] by (simp add: spec_first_match_def)
  have b: "map snd spec_precedence =
     [''Application Failure'', ''Disk Corruption'', ''OS-level Failure'',
      ''Network Degradation'', ''Agent Failure'', ''Resource Bottleneck'', ''Unknown State'']"
    by (simp add: spec_precedence_def)
  have c: "classify_failure d = ''Unknown State''" if "no_flag_set d"
    using that
    by (simp add: no_flag_set_def spec_precedence_def classify_failure_def truthy_Some_True)
  from a b c show ?thesis by blast
qed

theorem C6_first_match_wins_witness:
  "no_flag_set empty_diagnostics \<and> classify_failure empty_diagnostics = ''Unknown State''"
proof -
  have n: "no_flag_set empty_diagnostics"
    by (simp add: no_flag_set_def spec_precedence_def empty_diagnostics_def)
  from C6_first_match_wins [of empty_diagnostics] n show ?thesis by blast
qed

section \<open>Properties of the diagnostics handler\<close>

lemma auto_heal_triggered_append:
  "auto_heal_triggered (xs @ ys) \<longleftrightarrow> auto_heal_triggered xs \<or> auto_heal_triggered ys"
  by (simp add: auto_heal_triggered_def list_ex_iff) blast

text \<open>
  C9. A diagnostic run whose event carries an instance id completes (without one the
  handler rejects the event), and the classification and the score it reports are those of
  the diagnostics gathered. The auto-heal stage is triggered, with that classification
  and score, exactly when the score is below 70 or the classification is Application
  Failure, OS-level Failure or Disk Corruption; otherwise the handler only stores the
  report.
\<close>

theorem C9_auto_heal_trigger:
  "(no_instance_id (extract_instance_id ev) \<longrightarrow>
      diagnostics_handler ev d = Diag_missing_instance_id) \<and>
   (\<not> no_instance_id (extract_instance_id ev) \<longrightarrow>
      (\<exists>es. diagnostics_handler ev d
              = Diag_completed es
                  \<lparr>body_instance_id = get_or (extract_instance_id ev) [],
                   body_classification = classify_failure d,
                   body_diagnostic_score = calculate_diagnostic_score d\<rparr> \<and>
            (auto_heal_triggered es \<longleftrightarrow>
               calculate_diagnostic_score d < 70 \<or>
               classify_failure d
                 \<in> {''Application Failure'', ''OS-level Failure'', ''Disk Corruption''}) \<and>
            (auto_heal_triggered es \<longrightarrow>
               es = [Store_diagnostics (get_or (extract_instance_id ev) [])
                       (classify_failure d) (calculate_diagnostic_score d),
                     Trigger_auto_heal (get_or (extract_instance_id ev) [])
                       (classify_failure d) (calculate_diagnostic_score d)]) \<and>
            (\<not> auto_heal_triggered es \<longrightarrow>
               es = [Store_diagnostics (get_or (extract_instance_id ev) [])
                       (classify_failure d) (calculate_diagnostic_score d)]))) \<and>
   (diagnostics_handler ev d = Diag_completed effects body \<longrightarrow>
      body_classification body = classify_failure d \<and>
      body_diagnostic_score body = calculate_diagnostic_score d \<and>
      (auto_heal_triggered effects \<longleftrightarrow>
         body_diagnostic_score body < 70 \<or>
         body_classification body
           \<in> {''Application Failure'', ''OS-level Failure'', ''Disk Corruption''}) \<and>
      (\<not> auto_heal_triggered effects \<longrightarrow>
         effects = [Store_diagnostics (body_instance_id body) (body_classification body)
                      (body_diagnostic_score body)]))"
proof -
  let ?c = "classify_failure d" and ?s = "calculate_diagnostic_score d"
  let ?i = "get_or (extract_instance_id ev) []"
  let ?fire = "?s < 70 \<or> ?c \<in> {''Application Failure'', ''OS-level Failure'', ''Disk Corruption''}"
  let ?body = "\<lparr>body_instance_id = ?i, body_classification = ?c, body_diagnostic_score = ?s\<rparr>"
  let ?es = "if ?fire then [Store_diagnostics ?i ?c ?s, Trigger_auto_heal ?i ?c ?s]
             else [Store_diagnostics ?i ?c ?s]"
  have missing: "diagnostics_handler ev d = Diag_missing_instance_id"
    if "no_instance_id (extract_instance_id ev)"
    using that by (simp add: diagnostics_handler_def Let_def)
  have run: "diagnostics_handler ev d = Diag_completed ?es ?body"
    if "\<not> no_instance_id (extract_instance_id ev)"
    using that by (simp add: diagnostics_handler_def Let_def)
  have trig: "auto_heal_triggered ?es \<longleftrightarrow> ?fire"
    by (simp add: auto_heal_triggered_def)
  have fired: "?es = [Store_diagnostics ?i ?c ?s, Trigger_auto_heal ?i ?c ?s]"
    if "auto_heal_triggered ?es"
    using that trig by simp
  have quiet: "?es = [Store_diagnostics ?i ?c ?s]" if "\<not> auto_heal_triggered ?es"
    using that trig by simp
  have completes: "\<exists>es. diagnostics_handler ev d = Diag_completed es ?body \<and>
            (auto_heal_triggered es \<longleftrightarrow> ?fire) \<and>
            (auto_heal_triggered es \<longrightarrow>
               es = [Store_diagnostics ?i ?c ?s, Trigger_auto_heal ?i ?c ?s]) \<and>
            (\<not> auto_heal_triggered es \<longrightarrow> es = [Store_diagnostics ?i ?c ?s])"
    if p: "\<not> no_instance_id (extract_instance_id ev)"
    using run [OF p] trig fired quiet by blast
  have given: "body_classification body = ?c \<and> body_diagnostic_score body = ?s \<and>
      (auto_heal_triggered effects \<longleftrightarrow>
         body_diagnostic_score body < 70 \<or>
         body_classification body
           \<in> {''Application Failure'', ''OS-level Failure'', ''Disk Corruption''}) \<and>
      (\<not> auto_heal_triggered effects \<longrightarrow>
         effects = [Store_diagnostics (body_instance_id body) (body_classification body)
                      (body_diagnostic_score body)])"
    if g: "diagnostics_handler ev d = Diag_completed effects body"
  proof -
    have p: "\<not> no_instance_id (extract_instance_id ev)"
      using g missing by auto
    from run [OF p] g have e: "effects = ?es" and b: "body = ?body" by simp_all
    from trig quiet show ?thesis unfolding e b by simp
  qed
  from missing completes given show ?thesis by blast
qed

theorem C9_auto_heal_trigger_witness:
  "\<not> no_instance_id (extract_instance_id
        \<lparr>ev_instance_id = Some ''i-0abc'', ev_detail = None, ev_target_group_arn = Some ''tg'',
         ev_diagnostic_score = None, ev_classification = None, ev_issue_type = None,
         ev_action = None\<rparr>) \<and>
   diagnostics_handler
     \<lparr>ev_instance_id = Some ''i-0abc'', ev_detail = None, ev_target_group_arn = Some ''tg'',
      ev_diagnostic_score = None, ev_classification = None, ev_issue_type = None,
      ev_action = None\<rparr>
     (empty_diagnostics\<lparr>disk_corruption := Some True\<rparr>)
   = Diag_completed
       [Store_diagnostics ''i-0abc'' ''Disk Corruption'' 70,
        Trigger_auto_heal ''i-0abc'' ''Disk Corruption'' 70]
       \<lparr>body_instance_id = ''i-0abc'', body_classification = ''Disk Corruption'',
        body_diagnostic_score = 70\<rparr> \<and>
   diagnostics_handler
     \<lparr>ev_instance_id = Some ''i-0abc'', ev_detail = None, ev_target_group_arn = Some ''tg'',
      ev_diagnostic_score = None, ev_classification = None, ev_issue_type = None,
      ev_action = None\<rparr>
     (empty_diagnostics\<lparr>cpu_usage := Some 95, memory_usage := Some 85\<rparr>)
   = Diag_completed [Store_diagnostics ''i-0abc'' ''Unknown State'' 70]
       \<lparr>body_instance_id = ''i-0abc'', body_classification = ''Unknown State'',
        body_diagnostic_score = 70\<rparr>"
proof -
  let ?ev = "\<lparr>ev_instance_id = Some ''i-0abc'', ev_detail = None,
              ev_target_group_arn = Some ''tg'', ev_diagnostic_score = None,
              ev_classification = None, ev_issue_type = None, ev_action = None\<rparr>"
  let ?d1 = "empty_diagnostics\<lparr>disk_corruption := Some True\<rparr>"
  let ?d2 = "empty_diagnostics\<lparr>cpu_usage := Some 95, memory_usage := Some 85\<rparr>"
  have p: "\<not> no_instance_id (extract_instance_id ?ev)"
    by (simp add: extract_instance_id_def no_instance_id_def)
  have i: "get_or (extract_instance_id ?ev) [] = ''i-0abc''"
    by (simp add: extract_instance_id_def get_or_def)
  have c1: "classify_failure ?d1 = ''Disk Corruption''"
    by (simp add: classify_failure_def empty_diagnostics_def truthy_def get_or_def)
  have s1: "calculate_diagnostic_score ?d1 = 70"
    by (simp add: calculate_diagnostic_score_def empty_diagnostics_def truthy_def get_or_def)
  have c2: "classify_failure ?d2 = ''Unknown State''"
    by (simp add: classify_failure_def empty_diagnostics_def truthy_def get_or_def)
  have s2: "calculate_diagnostic_score ?d2 = 70"
    by (simp add: calculate_diagnostic_score_def empty_diagnostics_def truthy_def get_or_def)
  from C9_auto_heal_trigger [of ?ev ?d1] p obtain es1 where
    run1: "diagnostics_handler ?ev ?d1
            = Diag_completed es1
                \<lparr>body_instance_id = get_or (extract_instance_id ?ev) [],
                 body_classification = classify_failure ?d1,
                 body_diagnostic_score = calculate_diagnostic_score ?d1\<rparr>"
    and t1: "auto_heal_triggered es1 \<longleftrightarrow>
               calculate_diagnostic_score ?d1 < 70 \<or>
               classify_failure ?d1
                 \<in> {''Application Failure'', ''OS-level Failure'', ''Disk Corruption''}"
    and f1: "auto_heal_triggered es1 \<longrightarrow>
               es1 = [Store_diagnostics (get_or (extract_instance_id ?ev) [])
                       (classify_failure ?d1) (calculate_diagnostic_score ?d1),
                     Trigger_auto_heal (get_or (extract_instance_id ?ev) [])
                       (classify_failure ?d1) (calculate_diagnostic_score ?d1)]"
    by blast
  from t1 have "auto_heal_triggered es1" by (simp add: c1)
  with f1 have e1: "es1 = [Store_diagnostics ''i-0abc'' ''Disk Corruption'' 70,
                          Trigger_auto_heal ''i-0abc'' ''Disk Corruption'' 70]"
    by (simp add: i c1 s1)
  from C9_auto_heal_trigger [of ?ev ?d2] p obtain es2 where
    run2: "diagnostics_handler ?ev ?d2
            = Diag_completed es2
                \<lparr>body_instance_id = get_or (extract_instance_id ?ev) [],
                 body_classification = classify_failure ?d2,
                 body_diagnostic_score = calculate_diagnostic_score ?d2\<rparr>"
    and t2: "auto_heal_triggered es2 \<longleftrightarrow>
               calculate_diagnostic_score ?d2 < 70 \<or>
               classify_failure ?d2
                 \<in> {''Application Failure'', ''OS-level Failure'', ''Disk Corruption''}"
    and q2: "\<not> auto_heal_triggered es2 \<longrightarrow>
               es2 = [Store_diagnostics (get_or (extract_instance_id ?ev) [])
                       (classify_failure ?d2) (calculate_diagnostic_score ?d2)]"
    by blast
  from t2 have "\<not> auto_heal_triggered es2" by (simp add: c2 s2)
  with q2 have e2: "es2 = [Store_diagnostics ''i-0abc'' ''Unknown State'' 70]"
    by (simp add: i c2 s2)
  from p run1 run2 show ?thesis
    unfolding e1 e2 i c1 s1 c2 s2 by simp
qed

section \<open>Properties of flapping detection\<close>

lemma fold_count:
  "fold (\<lambda>i n. if P i then n + 1 else n) is (n0::int) = n0 + int (length (filter P is))"
  by (induction "is" arbitrary: n0) simp_all

lemma sum_list_ones: "sum_list (map (\<lambda>i. (1::int)) xs) = int (length xs)"
  by (induction xs) simp_all

lemma upt_1_Suc_Suc: "[Suc 0..<Suc (Suc n)] = Suc 0 # map Suc [Suc 0..<Suc n]"
proof -
  have "[Suc 0..<Suc (Suc n)] = Suc 0 # [Suc (Suc 0)..<Suc (Suc n)]" by (rule upt_conv_Cons) simp
  also have "[Suc (Suc 0)..<Suc (Suc n)] = map Suc [Suc 0..<Suc n]" by (rule map_Suc_upt [symmetric])
  finally show ?thesis .
qed

lemma index_changes:
  "length (filter (\<lambda>i. xs ! (i - 1) \<noteq> xs ! i) [1..<length xs]) = spec_transitions xs"
proof (induction xs rule: spec_transitions.induct)
  case (1 x y zs)
  let ?P = "\<lambda>i. (x # y # zs) ! (i - 1) \<noteq> (x # y # zs) ! i"
  let ?Q = "\<lambda>i. (y # zs) ! (i - 1) \<noteq> (y # zs) ! i"
  let ?is = "[Suc 0..<Suc (length zs)]"
  have shift: "filter (?P \<circ> Suc) ?is = filter ?Q ?is"
    by (rule filter_cong) (auto simp: nth_Cons')
  have ih: "length (filter ?Q ?is) = spec_transitions (y # zs)"
    using 1 by simp
  have "[1..<length (x # y # zs)] = Suc 0 # map Suc ?is"
    using upt_1_Suc_Suc [of "length zs"] by simp
  then have "length (filter ?P [1..<length (x # y # zs)])
      = length (filter ?P (Suc 0 # map Suc ?is))"
    by (simp only:)
  also have "\<dots> = (if x \<noteq> y then 1 else 0) + length (filter (?P \<circ> Suc) ?is)"
    by (simp add: filter_map del: upt_Suc)
  also have "\<dots> = spec_transitions (x # y # zs)"
    by (simp only: shift ih spec_transitions.simps)
  finally show ?case .
qed simp_all

lemma state_changes_transitions:
  "count_state_changes h = int (spec_transitions (states_of h))"
proof -
  let ?P = "\<lambda>i. get_or ((h ! (i - 1)) ''state'') [] \<noteq> get_or ((h ! i) ''state'') []"
  let ?R = "\<lambda>i. states_of h ! (i - 1) \<noteq> states_of h ! i"
  have "count_state_changes h = int (length (filter ?P [1..<length h]))"
    unfolding count_state_changes_def Let_def by (simp add: fold_count)
  also have "filter ?P [1..<length h] = filter ?R [1..<length h]"
    by (rule filter_cong) (auto simp: states_of_def)
  also have "length (filter ?R [1..<length h]) = spec_transitions (states_of h)"
    using index_changes [of "states_of h"] by (simp add: states_of_def)
  finally show ?thesis .
qed

lemma alternating_transitions:
  "spec_alternating xs \<Longrightarrow> spec_transitions xs = length xs - 1"
  by (induction xs rule: spec_transitions.induct) simp_all

lemma check_flapping_iff:
  "check_flapping h 3 \<longleftrightarrow> length h \<ge> 6 \<and> spec_transitions (states_of h) \<ge> 3"
  by (auto simp add: check_flapping_def state_changes_transitions)

lemma check_target_flapping_iff:
  "check_target_flapping (Inr h) \<longleftrightarrow> length h \<ge> 6 \<and> spec_transitions (State_of h) \<ge> 3"
proof -
  let ?s = "State_of h"
  have "filter (\<lambda>i. ?s ! i \<noteq> ?s ! (i - 1)) [1..<length ?s]
      = filter (\<lambda>i. ?s ! (i - 1) \<noteq> ?s ! i) [1..<length ?s]"
    by (rule filter_cong) auto
  then have "int (length (filter (\<lambda>i. ?s ! i \<noteq> ?s ! (i - 1)) [1..<length ?s]))
      = int (spec_transitions ?s)"
    using index_changes [of ?s] by simp
  then show ?thesis
    unfolding check_target_flapping_def Let_def State_of_def [symmetric] sum_list_ones
    by (auto simp add: State_of_def)
qed

text \<open>
  C7. With the default threshold of 3, both flapping tests answer true exactly when the
  history has at least 6 samples and at least 3 transitions between adjacent samples. So a
  history of 6 or more samples that changes state at every sample is flapping, and a
  history with at most one transition is not.
\<close>

theorem C7_flapping_detection:
  "(check_flapping h 3 \<longleftrightarrow> length h \<ge> 6 \<and> spec_transitions (states_of h) \<ge> 3) \<and>
   (check_target_flapping (Inr h) \<longleftrightarrow> length h \<ge> 6 \<and> spec_transitions (State_of h) \<ge> 3) \<and>
   (length h \<ge> 6 \<and> spec_alternating (states_of h) \<longrightarrow> check_flapping h 3) \<and>
   (length h \<ge> 6 \<and> spec_alternating (State_of h) \<longrightarrow> check_target_flapping (Inr h)) \<and>
   (spec_transitions (states_of g) \<le> 1 \<longrightarrow> \<not> check_flapping g 3) \<and>
   (spec_transitions (State_of g) \<le> 1 \<longrightarrow> \<not> check_target_flapping (Inr g))"
proof -
  have a: "check_flapping h 3" if "length h \<ge> 6" "spec_alternating (states_of h)"
  proof -
    have "spec_transitions (states_of h) = length h - 1"
      using alternating_transitions [OF that(2)] by (simp add: states_of_def)
    with that(1) show ?thesis by (simp add: check_flapping_iff)
  qed
  have b: "check_target_flapping (Inr h)" if "length h \<ge> 6" "spec_alternating (State_of h)"
  proof -
    have "spec_transitions (State_of h) = length h - 1"
      using alternating_transitions [OF that(2)] by (simp add: State_of_def)
    with that(1) show ?thesis by (simp add: check_target_flapping_iff)
  qed
  have c: "\<not> check_flapping g 3" if "spec_transitions (states_of g) \<le> 1"
    using that by (simp add: check_flapping_iff)
  have d: "\<not> check_target_flapping (Inr g)" if "spec_transitions (State_of g) \<le> 1"
    using that by (simp add: check_target_flapping_iff)
  from check_flapping_iff [of h] check_target_flapping_iff [of h] a b c d
  show ?thesis by blast
qed

theorem C7_flapping_detection_witness:
  "length alternating_history \<ge> 6 \<and>
   spec_alternating (states_of alternating_history) \<and>
   spec_alternating (State_of alternating_history) \<and>
   spec_transitions (states_of settled_history) \<le> 1 \<and>
   spec_transitions (State_of settled_history) \<le> 1 \<and>
   check_flapping alternating_history 3 \<and>
   check_target_flapping (Inr alternating_history) \<and>
   \<not> check_flapping settled_history 3 \<and>
   \<not> check_target_flapping (Inr settled_history)"
proof -
  have l: "length alternating_history \<ge> 6"
    by (simp add: alternating_history_def)
  have a1: "spec_alternating (states_of alternating_history)"
    by (simp add: alternating_history_def states_of_def observation_def get_or_def)
  have a2: "spec_alternating (State_of alternating_history)"
    by (simp add: alternating_history_def State_of_def observation_def)
  have s1: "spec_transitions (states_of settled_history) \<le> 1"
    by (simp add: settled_history_def states_of_def observation_def get_or_def)
  have s2: "spec_transitions (State_of settled_history) \<le> 1"
    by (simp add: settled_history_def State_of_def observation_def)
  from C7_flapping_detection [of alternating_history settled_history] l a1 a2 s1 s2
  show ?thesis by blast
qed

section \<open>Properties of the verification checks\<close>

lemma passed_result_of: "passed (result_of name ok) = ok"
  by (simp add: result_of_def)

lemma ssm_raised_fails: "ssm_probe_raised p \<Longrightarrow> \<not> passed (check_ssm_online p)"
  by (auto simp add: ssm_probe_raised_def check_ssm_online_def passed_result_of
      split: sum.splits)

lemma app_raised_fails: "app_probe_raised p \<Longrightarrow> \<not> passed (check_app_health_endpoint p)"
  by (auto simp add: app_probe_raised_def check_app_health_endpoint_def passed_result_of Let_def
      split: sum.splits list.splits)

lemma resource_raised_fails: "resource_probe_raised p \<Longrightarrow> \<not> passed (check_resource_usage p)"
  by (auto simp add: resource_probe_raised_def check_resource_usage_def passed_result_of
      split: sum.splits option.splits)

lemma lb_raised_fails: "lb_probe_raised p \<Longrightarrow> \<not> passed (simulate_lb_health_check p)"
  by (auto simp add: lb_probe_raised_def simulate_lb_health_check_def passed_result_of
      split: sum.splits list.splits)

lemma log_raised_passes: "log_probe_raised p \<Longrightarrow> passed (check_log_anomalies p)"
  by (auto simp add: log_probe_raised_def check_log_anomalies_def passed_result_of
      split: sum.splits option.splits)

lemma checks_of_run:
  "checks (run_verification_checks p) =
     [(''ssm_online'', check_ssm_online p),
      (''app_health'', check_app_health_endpoint p),
      (''resource_usage'', check_resource_usage p),
      (''log_anomalies'', check_log_anomalies p),
      (''lb_health_simulation'', simulate_lb_health_check p)]"
  by (simp add: run_verification_checks_def record_check_def Let_def)

lemma failed_checks_of_run:
  "failed_checks (run_verification_checks p) =
     (if passed (check_ssm_online p) then [] else [''ssm_online'']) @
     (if passed (check_app_health_endpoint p) then [] else [''app_health'']) @
     (if passed (check_resource_usage p) then [] else [''resource_usage'']) @
     (if passed (check_log_anomalies p) then [] else [''log_anomalies'']) @
     (if passed (simulate_lb_health_check p) then [] else [''lb_health_simulation''])"
  by (simp add: run_verification_checks_def record_check_def Let_def)

lemma all_checks_passed_of_run:
  "all_checks_passed (run_verification_checks p) \<longleftrightarrow> failed_checks (run_verification_checks p) = []"
  by (simp add: run_verification_checks_def Let_def)

lemma check_passed_of_run:
  "check_passed (run_verification_checks p) ''ssm_online'' = passed (check_ssm_online p)"
  "check_passed (run_verification_checks p) ''app_health'' = passed (check_app_health_endpoint p)"
  "check_passed (run_verification_checks p) ''resource_usage'' = passed (check_resource_usage p)"
  "check_passed (run_verification_checks p) ''log_anomalies'' = passed (check_log_anomalies p)"
  "check_passed (run_verification_checks p) ''lb_health_simulation'' = passed (simulate_lb_health_check p)"
  by (simp_all add: check_passed_def checks_of_run)

lemma failed_checks_filter:
  "failed_checks (run_verification_checks p) =
     filter (\<lambda>name. \<not> check_passed (run_verification_checks p) name) check_names"
  by (simp add: failed_checks_of_run check_names_def check_passed_of_run)

lemma all_checks_passed_iff:
  "all_checks_passed (run_verification_checks p) \<longleftrightarrow>
     list_all (check_passed (run_verification_checks p)) check_names"
  by (simp add: all_checks_passed_of_run failed_checks_of_run check_names_def check_passed_of_run)

lemma verify_handler_completes:
  assumes "\<not> no_instance_id (extract_instance_id ev)"
    and "get_or (ev_action ev) ''repair'' = ''replace'' \<Longrightarrow> w = None"
    and "rr = None"
  shows "verify_handler ev w p rr
           = Verify_done (all_checks_passed (run_verification_checks p)) (run_verification_checks p)"
  using assms by (auto simp add: verify_handler_def Let_def)

lemma verify_handler_reregisters:
  assumes "verify_handler ev w p rr = Verify_done True v"
  shows "v = run_verification_checks p \<and> all_checks_passed v"
  using assms
  by (auto simp add: verify_handler_def Let_def split: if_splits option.splits)

text \<open>
  C8, as stated, for an instance whose four other checks pass and whose log probe raises:
  the log check is stored as passed, no check is listed as failed, all checks count as
  passed and the handler re-registers the instance.
\<close>

theorem C8_log_probe_counterexample:
  "log_probe_raised log_probe_down \<and>
   ''log_anomalies'' \<notin> set (failed_checks (run_verification_checks log_probe_down)) \<and>
   failed_checks (run_verification_checks log_probe_down) = [] \<and>
   all_checks_passed (run_verification_checks log_probe_down) \<and>
   verify_handler repaired_event None log_probe_down None
     = Verify_done True (run_verification_checks log_probe_down)"
proof -
  have r: "log_probe_raised log_probe_down"
    by (simp add: log_probe_raised_def log_probe_down_def)
  have f: "failed_checks (run_verification_checks log_probe_down) = []"
    by (simp add: failed_checks_of_run log_probe_down_def check_ssm_online_def
        check_app_health_endpoint_def check_resource_usage_def check_log_anomalies_def
        simulate_lb_health_check_def healthy_instance_def passed_result_of get_or_def)
  then have a: "all_checks_passed (run_verification_checks log_probe_down)"
    by (simp add: all_checks_passed_of_run)
  have i: "\<not> no_instance_id (extract_instance_id repaired_event)"
    by (simp add: repaired_event_def extract_instance_id_def no_instance_id_def)
  have h: "verify_handler repaired_event None log_probe_down None
     = Verify_done True (run_verification_checks log_probe_down)"
    using verify_handler_completes [OF i, of None None log_probe_down] a by simp
  from r f a h show ?thesis by simp
qed

lemma verify_handler_outcome:
  assumes "\<not> no_instance_id (extract_instance_id ev)"
    and "get_or (ev_action ev) ''repair'' \<noteq> ''replace'' \<or> w = None"
  shows "verify_handler ev w p rr
           = (if all_checks_passed (run_verification_checks p)
              then (case rr of
                      None \<Rightarrow> Verify_done True (run_verification_checks p)
                    | Some e \<Rightarrow> Verify_raised e)
              else Verify_done False (run_verification_checks p))"
  using assms by (auto simp add: verify_handler_def Let_def split: option.splits)

lemma verify_handler_raised:
  assumes "verify_handler ev w p rr = Verify_raised e"
  shows "(get_or (ev_action ev) ''repair'' = ''replace'' \<and> w = Some e) \<or>
         (rr = Some e \<and> failed_checks (run_verification_checks p) = [])"
  using assms
  by (auto simp add: verify_handler_def Let_def all_checks_passed_of_run
      split: if_splits option.splits)

text \<open>
  C8, amended. A check whose probe raised an error is treated as failed and listed in
  \<open>failed_checks\<close> when it is the SSM, application health, resource usage or load
  balancer check; the log check whose probe raised (or whose output cannot be parsed) is
  stored as passed and is not listed. The failed checks are the checks stored as not
  passed, and all checks count as passed exactly when that list is empty. No probe error
  leaves the handler: with an instance id it runs the checks to the end, and it raises
  only what the wait for a replaced instance or the re-registration call itself raises.
  The instance is re-registered only when no check is listed as failed, that is, only
  when the four other checks passed and the log check passed or could not be executed.
\<close>

theorem C8_probe_errors:
  "(ssm_probe_raised p \<longrightarrow> ''ssm_online'' \<in> set (failed_checks (run_verification_checks p))) \<and>
   (app_probe_raised p \<longrightarrow> ''app_health'' \<in> set (failed_checks (run_verification_checks p))) \<and>
   (resource_probe_raised p \<longrightarrow>
      ''resource_usage'' \<in> set (failed_checks (run_verification_checks p))) \<and>
   (lb_probe_raised p \<longrightarrow>
      ''lb_health_simulation'' \<in> set (failed_checks (run_verification_checks p))) \<and>
   (log_probe_raised p \<longrightarrow>
      check_passed (run_verification_checks p) ''log_anomalies'' \<and>
      ''log_anomalies'' \<notin> set (failed_checks (run_verification_checks p))) \<and>
   failed_checks (run_verification_checks p)
     = filter (\<lambda>name. \<not> check_passed (run_verification_checks p) name) check_names \<and>
   (all_checks_passed (run_verification_checks p) \<longleftrightarrow>
      list_all (check_passed (run_verification_checks p)) check_names) \<and>
   (all_checks_passed (run_verification_checks p) \<longleftrightarrow>
      failed_checks (run_verification_checks p) = []) \<and>
   (\<not> no_instance_id (extract_instance_id ev) \<and>
    (get_or (ev_action ev) ''repair'' \<noteq> ''replace'' \<or> w = None) \<longrightarrow>
      verify_handler ev w p rr
        = (if all_checks_passed (run_verification_checks p)
           then (case rr of
                   None \<Rightarrow> Verify_done True (run_verification_checks p)
                 | Some x \<Rightarrow> Verify_raised x)
           else Verify_done False (run_verification_checks p))) \<and>
   (verify_handler ev w p rr = Verify_done True v \<longrightarrow>
      v = run_verification_checks p \<and> failed_checks v = [] \<and>
      list_all (check_passed v) check_names) \<and>
   (verify_handler ev w p rr = Verify_raised e \<longrightarrow>
      (get_or (ev_action ev) ''repair'' = ''replace'' \<and> w = Some e) \<or>
      (rr = Some e \<and> failed_checks (run_verification_checks p) = []))"
proof -
  let ?v = "run_verification_checks p"
  have a: "''ssm_online'' \<in> set (failed_checks ?v)" if "ssm_probe_raised p"
    using ssm_raised_fails [OF that] by (simp add: failed_checks_of_run)
  have b: "''app_health'' \<in> set (failed_checks ?v)" if "app_probe_raised p"
    using app_raised_fails [OF that] by (simp add: failed_checks_of_run)
  have c: "''resource_usage'' \<in> set (failed_checks ?v)" if "resource_probe_raised p"
    using resource_raised_fails [OF that] by (simp add: failed_checks_of_run)
  have d: "''lb_health_simulation'' \<in> set (failed_checks ?v)" if "lb_probe_raised p"
    using lb_raised_fails [OF that] by (simp add: failed_checks_of_run)
  have l: "check_passed ?v ''log_anomalies'' \<and> ''log_anomalies'' \<notin> set (failed_checks ?v)"
    if "log_probe_raised p"
    using log_raised_passes [OF that] by (simp add: failed_checks_of_run check_passed_of_run)
  have f: "verify_handler ev w p rr
        = (if all_checks_passed ?v
           then (case rr of None \<Rightarrow> Verify_done True ?v | Some x \<Rightarrow> Verify_raised x)
           else Verify_done False ?v)"
    if "\<not> no_instance_id (extract_instance_id ev)"
      "get_or (ev_action ev) ''repair'' \<noteq> ''replace'' \<or> w = None"
    using that by (rule verify_handler_outcome)
  have g: "v = ?v \<and> failed_checks v = [] \<and> list_all (check_passed v) check_names"
    if "verify_handler ev w p rr = Verify_done True v"
    using verify_handler_reregisters [OF that] all_checks_passed_of_run [of p]
      all_checks_passed_iff [of p] by auto
  have h: "(get_or (ev_action ev) ''repair'' = ''replace'' \<and> w = Some e) \<or>
           (rr = Some e \<and> failed_checks ?v = [])"
    if "verify_handler ev w p rr = Verify_raised e"
    using that by (rule verify_handler_raised)
  from a b c d l f g h failed_checks_filter [of p] all_checks_passed_iff [of p]
    all_checks_passed_of_run [of p]
  show ?thesis by blast
qed

theorem C8_probe_errors_witness:
  "ssm_probe_raised all_probes_down \<and> app_probe_raised all_probes_down \<and>
   resource_probe_raised all_probes_down \<and> lb_probe_raised all_probes_down \<and>
   log_probe_raised all_probes_down \<and>
   \<not> no_instance_id (extract_instance_id repaired_event) \<and>
   failed_checks (run_verification_checks all_probes_down)
     = [''ssm_online'', ''app_health'', ''resource_usage'', ''lb_health_simulation''] \<and>
   \<not> all_checks_passed (run_verification_checks all_probes_down) \<and>
   verify_handler repaired_event None all_probes_down None
     = Verify_done False (run_verification_checks all_probes_down) \<and>
   list_all (check_passed (run_verification_checks all_probes_healthy)) check_names \<and>
   failed_checks (run_verification_checks all_probes_healthy) = [] \<and>
   verify_handler repaired_event None all_probes_healthy None
     = Verify_done True (run_verification_checks all_probes_healthy) \<and>
   verify_handler repaired_event None all_probes_healthy (Some ''Throttling'')
     = Verify_raised ''Throttling''"
proof -
  let ?v = "run_verification_checks all_probes_down"
  let ?h = "run_verification_checks all_probes_healthy"
  have r: "ssm_probe_raised all_probes_down" "app_probe_raised all_probes_down"
    "resource_probe_raised all_probes_down" "lb_probe_raised all_probes_down"
    "log_probe_raised all_probes_down"
    by (simp_all add: all_probes_down_def ssm_probe_raised_def app_probe_raised_def
        resource_probe_raised_def lb_probe_raised_def log_probe_raised_def)
  have i: "\<not> no_instance_id (extract_instance_id repaired_event)"
    by (simp add: repaired_event_def extract_instance_id_def no_instance_id_def)
  have act: "get_or (ev_action repaired_event) ''repair'' \<noteq> ''replace'' \<or> None = (None :: exn option)"
    by simp
  note t = C8_probe_errors [where p = all_probes_down and ev = repaired_event and w = None
      and rr = None and v = ?v and e = "''Throttling''"]
  from t have ff: "failed_checks ?v = filter (\<lambda>name. \<not> check_passed ?v name) check_names"
    by blast
  from t r have m: "''ssm_online'' \<in> set (failed_checks ?v)"
    "''app_health'' \<in> set (failed_checks ?v)"
    "''resource_usage'' \<in> set (failed_checks ?v)"
    "''lb_health_simulation'' \<in> set (failed_checks ?v)"
    by blast+
  from t r have p: "check_passed ?v ''log_anomalies''"
    by blast
  from m have np: "\<not> check_passed ?v ''ssm_online''" "\<not> check_passed ?v ''app_health''"
      "\<not> check_passed ?v ''resource_usage''" "\<not> check_passed ?v ''lb_health_simulation''"
    unfolding ff by simp_all
  from p np have f: "failed_checks ?v
      = [''ssm_online'', ''app_health'', ''resource_usage'', ''lb_health_simulation'']"
    unfolding ff by (simp add: check_names_def)
  from t have eq: "all_checks_passed ?v \<longleftrightarrow> failed_checks ?v = []"
    by blast
  from eq f have n: "\<not> all_checks_passed ?v"
    by simp
  from t i act have "verify_handler repaired_event None all_probes_down None
      = (if all_checks_passed ?v
         then (case (None :: exn option) of
                 None \<Rightarrow> Verify_done True ?v
               | Some x \<Rightarrow> Verify_raised x)
         else Verify_done False ?v)"
    by blast
  with n have h: "verify_handler repaired_event None all_probes_down None
      = Verify_done False ?v"
    by simp
  have hp: "list_all (check_passed ?h) check_names"
    by (simp add: check_names_def check_passed_of_run all_probes_healthy_def
        check_ssm_online_def check_app_health_endpoint_def check_resource_usage_def
        check_log_anomalies_def simulate_lb_health_check_def healthy_instance_def
        passed_result_of get_or_def)
  note u = C8_probe_errors [where p = all_probes_healthy and ev = repaired_event and w = None
      and rr = None and v = ?h and e = "''Throttling''"]
  from u hp have ha: "all_checks_passed ?h" by blast
  from u ha have hf: "failed_checks ?h = []" by blast
  from u i act have "verify_handler repaired_event None all_probes_healthy None
      = (if all_checks_passed ?h
         then (case (None :: exn option) of
                 None \<Rightarrow> Verify_done True ?h
               | Some x \<Rightarrow> Verify_raised x)
         else Verify_done False ?h)"
    by blast
  with ha have hd: "verify_handler repaired_event None all_probes_healthy None
      = Verify_done True ?h"
    by simp
  note w = C8_probe_errors [where p = all_probes_healthy and ev = repaired_event and w = None
      and rr = "Some ''Throttling''" and v = ?h and e = "''Throttling''"]
  from w i act have "verify_handler repaired_event None all_probes_healthy (Some ''Throttling'')
      = (if all_checks_passed ?h
         then (case Some ''Throttling'' of
                 None \<Rightarrow> Verify_done True ?h
               | Some x \<Rightarrow> Verify_raised x)
         else Verify_done False ?h)"
    by blast
  with ha have hr: "verify_handler repaired_event None all_probes_healthy
      (Some ''Throttling'') = Verify_raised ''Throttling''"
    by simp
  from r i f n h hp hf hd hr show ?thesis by simp
qed

end
